theory Spec2Isabelle
  imports Main "HOL-Library.AList"
begin

section \<open>The workflow controller of \<open>app/core/workflow_controller.py\<close>\<close>

text \<open>
  The controller keeps a registry of sessions, interprets free-text commands, calls the
  browser and email services, appends events to the session it works on and tells every
  registered listener about each event. The embedding below follows the module function by
  function. Python objects that are mutated in place are passed in and returned updated;
  the calls the controller makes to the outside (listeners, services, the removal of a
  registry entry) are recorded, in order, in a list of effects that every operation returns
  beside its result. Calls to the logger are left out, except the one that records a
  listener's fault.
\<close>

subsection \<open>Data model\<close>

datatype WorkflowState =
    IDLE
  | LISTENING
  | PROCESSING_COMMAND
  | AUTHENTICATING
  | NAVIGATING
  | READING_EMAIL
  | GENERATING_RESPONSE
  | REVIEWING
  | SUBMITTING
  | ERROR

text \<open>A \<open>datetime\<close> is an instant on the wall clock, counted in ticks.\<close>

type_synonym datetime = nat

text \<open>
  The email dictionary inside the answer of \<open>email_service.process_email\<close>, with the keys
  the service fills in (\<open>attachments\<close> is always \<open>None\<close> there and is left out).
\<close>

record email_record =
  email_id :: string
  subject :: string
  sender :: string
  recipient :: string
  date :: string
  body :: string

text \<open>The values that occur in event payloads and in the dictionaries the controller returns.\<close>

datatype pyval = PNone | PStr string | PEmail email_record

type_synonym pydict = "(string \<times> pyval) list"

record WorkflowEvent =
  state :: WorkflowState
  timestamp :: datetime
  data :: "pydict option"
  message :: "string option"

record WorkflowSession =
  session_id :: string
  browser_session_id :: "string option"
  current_email_id :: "string option"
  current_state :: WorkflowState
  draft_response :: "string option"
  start_time :: datetime
  events :: "WorkflowEvent list"

text \<open>
  Both classes give their time field the default \<open>datetime.now()\<close>. Python evaluates a
  default written in a class body once, when the class statement runs (at the import of the
  module), and every instance built without that argument receives the stored value. The two
  stored values are the fields of \<open>class_defaults\<close>; no function of the module reads the
  clock again.
\<close>

record class_defaults =
  event_timestamp_default :: datetime
  session_start_time_default :: datetime

definition new_WorkflowEvent ::
  "class_defaults \<Rightarrow> WorkflowState \<Rightarrow> pydict option \<Rightarrow> string option \<Rightarrow> WorkflowEvent" where
  "new_WorkflowEvent cls st d m =
     \<lparr>state = st, timestamp = event_timestamp_default cls, data = d, message = m\<rparr>"

text \<open>\<open>WorkflowSession(session_id=...)\<close> followed by \<open>__post_init__\<close>.\<close>

definition new_WorkflowSession :: "class_defaults \<Rightarrow> string \<Rightarrow> WorkflowSession" where
  "new_WorkflowSession cls sid =
     \<lparr>session_id = sid, browser_session_id = None, current_email_id = None,
      current_state = IDLE, draft_response = None,
      start_time = session_start_time_default cls, events = []\<rparr>"

text \<open>\<open>WorkflowSession.add_event\<close>: returns the event and the session as it is afterwards.\<close>

definition add_event ::
  "class_defaults \<Rightarrow> WorkflowSession \<Rightarrow> WorkflowState \<Rightarrow> pydict option \<Rightarrow> string option
     \<Rightarrow> WorkflowEvent \<times> WorkflowSession" where
  "add_event cls session st d m =
     (let event = new_WorkflowEvent cls st d m
      in (event, session\<lparr>events := events session @ [event], current_state := st\<rparr>))"

text \<open>Truth value of an \<open>Optional[str]\<close>: \<open>None\<close> and the empty string are false.\<close>

definition truthy :: "string option \<Rightarrow> bool" where
  "truthy v = (case v of None \<Rightarrow> False | Some s \<Rightarrow> s \<noteq> [])"

text \<open>\<open>str(v)\<close> inside an f-string, for an \<open>Optional[str]\<close>.\<close>

definition py_str :: "string option \<Rightarrow> string" where
  "py_str v = (case v of None \<Rightarrow> ''None'' | Some s \<Rightarrow> s)"

subsection \<open>Listeners\<close>

text \<open>
  A listener is a callable; calling it on an event either returns or raises an
  \<open>Exception\<close> whose \<open>str\<close> is recorded. \<open>is_coroutine\<close> is the answer of
  \<open>asyncio.iscoroutinefunction\<close> for it.
\<close>

datatype listener_outcome = Returned | Raised string

record listener =
  is_coroutine :: bool
  run :: "WorkflowEvent \<Rightarrow> listener_outcome"

text \<open>The calls the services receive.\<close>

datatype service_call =
    Manage_session_end string
  | Login_to_crm
  | Navigate_to_inbox "string option"
  | Process_email "string option" "string option"
  | Submit_draft "string option" "string option" "string option" bool

datatype effect =
    Invoked nat WorkflowEvent
  | Listener_error nat string
  | Called service_call
  | Registry_deleted string

text \<open>
  \<open>_notify_listeners\<close>: the loop over \<open>self.event_listeners\<close>; \<open>i\<close> is the position of the
  listener in the list. Each call sits in its own \<open>try\<close>, whose handler only logs.
\<close>

fun notify_from :: "nat \<Rightarrow> listener list \<Rightarrow> WorkflowEvent \<Rightarrow> effect list" where
  "notify_from i [] event = []"
| "notify_from i (l # ls) event =
     (let outcome = (if is_coroutine l then run l event else run l event)
      in Invoked i event #
         (case outcome of
            Returned \<Rightarrow> []
          | Raised e \<Rightarrow> [Listener_error i (''Error in event listener: '' @ e)]) @
         notify_from (Suc i) ls event)"

definition notify_listeners :: "listener list \<Rightarrow> WorkflowEvent \<Rightarrow> effect list" where
  "notify_listeners ls event = notify_from 0 ls event"

subsection \<open>Services\<close>

text \<open>
  A call to a service either raises (with the \<open>str\<close> of the exception) or returns a
  dictionary. The dictionaries have the keys the services of \<open>app/services\<close> put in them.
\<close>

datatype 'a outcome = Raises string | Returns 'a

record browser_result =
  br_session_id :: "string option"
  br_status :: string
  br_content :: string
  br_error :: "string option"

record email_result =
  er_email :: email_record
  er_suggested_response :: string
  er_intent :: string

record submit_result =
  sr_email_id :: "string option"
  sr_status :: string
  sr_action :: string
  sr_timestamp :: string

text \<open>
  How the services answer during one operation of the controller (an operation calls at
  most one of them, once). The login call receives only constants of the settings.
\<close>

record collaborators =
  manage_session_end :: "string \<Rightarrow> browser_result outcome"
  login_to_crm :: "browser_result outcome"
  navigate_to_inbox :: "string option \<Rightarrow> browser_result outcome"
  process_email :: "string option \<Rightarrow> string option \<Rightarrow> email_result outcome"
  submit_draft :: "string option \<Rightarrow> string option \<Rightarrow> string option \<Rightarrow> bool \<Rightarrow> submit_result outcome"

subsection \<open>The controller\<close>

text \<open>
  \<open>self.sessions\<close> is a dictionary, which iterates in insertion order: an association list
  in which a new key goes to the end and an existing key keeps its place.
\<close>

record WorkflowController =
  sessions :: "(string \<times> WorkflowSession) list"
  event_listeners :: "listener list"

definition init_controller :: WorkflowController where
  "init_controller = \<lparr>sessions = [], event_listeners = []\<rparr>"

text \<open>
  \<open>create_session\<close>. The identifier \<open>uuid.uuid4()\<close> draws is the argument \<open>sid\<close>.
\<close>

definition create_session ::
  "class_defaults \<Rightarrow> string \<Rightarrow> WorkflowController \<Rightarrow> pydict \<times> WorkflowController \<times> effect list" where
  "create_session cls sid ctl =
     (let session0 = new_WorkflowSession cls sid;
          session1 = snd (add_event cls session0 LISTENING None
                            (Some ''Session created, listening for commands''));
          ctl1 = ctl\<lparr>sessions := AList.update sid session1 (sessions ctl)\<rparr>;
          fx = notify_listeners (event_listeners ctl1) (last (events session1))
      in ([(''session_id'', PStr sid), (''status'', PStr ''created'')], ctl1, fx))"

text \<open>
  \<open>end_session\<close>. The session object is changed in place while it is still in the
  registry, so the registry is written before the listeners are told and the entry is
  deleted last.
\<close>

definition end_session ::
  "class_defaults \<Rightarrow> collaborators \<Rightarrow> string \<Rightarrow> WorkflowController
     \<Rightarrow> pydict \<times> WorkflowController \<times> effect list" where
  "end_session cls collab sid ctl =
     (case map_of (sessions ctl) sid of
        None \<Rightarrow> ([(''status'', PStr ''error''), (''message'', PStr ''Session not found'')], ctl, [])
      | Some session0 \<Rightarrow>
          (let fx0 = (case browser_session_id session0 of
                        None \<Rightarrow> []
                      | Some b \<Rightarrow>
                          if b \<noteq> [] then
                            (case manage_session_end collab b of
                               Returns r \<Rightarrow> [Called (Manage_session_end b)]
                             | Raises e \<Rightarrow> [Called (Manage_session_end b)])
                          else []);
               session1 = snd (add_event cls session0 IDLE None (Some ''Session ended''));
               ctl1 = ctl\<lparr>sessions := AList.update sid session1 (sessions ctl)\<rparr>;
               fx1 = notify_listeners (event_listeners ctl1) (last (events session1));
               ctl2 = ctl1\<lparr>sessions := AList.delete sid (sessions ctl1)\<rparr>
           in ([(''status'', PStr ''ended''), (''session_id'', PStr sid)], ctl2,
               fx0 @ fx1 @ [Registry_deleted sid])))"

subsection \<open>Command text\<close>

text \<open>
  \<open>str.lower\<close> on the letters \<open>A\<close> to \<open>Z\<close>; every other character stays. A string is
  a list of bytes, and the keywords of the dispatch are made of ASCII letters and a space.
\<close>

definition lower_char :: "char \<Rightarrow> char" where
  "lower_char c =
     (case map_of (zip ''ABCDEFGHIJKLMNOPQRSTUVWXYZ'' ''abcdefghijklmnopqrstuvwxyz'') c of
        None \<Rightarrow> c
      | Some d \<Rightarrow> d)"

definition lower :: "string \<Rightarrow> string" where
  "lower s = map lower_char s"

text \<open>\<open>sub in s\<close> for two strings.\<close>

fun starts_with :: "string \<Rightarrow> string \<Rightarrow> bool" where
  "starts_with [] s = True"
| "starts_with (a # sub) [] = False"
| "starts_with (a # sub) (c # s) = (a = c \<and> starts_with sub s)"

fun contains :: "string \<Rightarrow> string \<Rightarrow> bool" where
  "contains sub [] = (sub = [])"
| "contains sub (c # s) = (starts_with sub (c # s) \<or> contains sub s)"

subsection \<open>Command handlers\<close>

text \<open>
  A handler receives the session object and changes it in place; here it returns its
  result, the session afterwards and the effects. \<open>ls\<close> is \<open>self.event_listeners\<close>.
  A \<open>KeyError\<close> of a lookup in a service's answer would be raised inside the same \<open>try\<close>
  as a fault of the service and is the \<open>Raises\<close> case.
\<close>

type_synonym handler_result = "pydict \<times> WorkflowSession \<times> effect list"

definition handle_login_command ::
  "class_defaults \<Rightarrow> collaborators \<Rightarrow> listener list \<Rightarrow> WorkflowSession \<Rightarrow> handler_result" where
  "handle_login_command cls collab ls session0 =
     (let session1 = snd (add_event cls session0 AUTHENTICATING None
                            (Some ''Authenticating to Slate CRM''));
          fx1 = notify_listeners ls (last (events session1)) @ [Called Login_to_crm]
      in case login_to_crm collab of
           Returns result \<Rightarrow>
             if br_status result = ''success'' then
               (let session2 = session1\<lparr>browser_session_id := br_session_id result\<rparr>;
                    session3 = snd (add_event cls session2 LISTENING None
                                 (Some ''Authentication successful, listening for next command''));
                    fx2 = notify_listeners ls (last (events session3))
                in ([(''status'', PStr ''success''),
                     (''message'', PStr ''Authentication successful'')], session3, fx1 @ fx2))
             else
               (let session2 = snd (add_event cls session1 ERROR None
                                 (Some (''Authentication failed: '' @ py_str (br_error result))));
                    fx2 = notify_listeners ls (last (events session2))
                in ([(''status'', PStr ''error''),
                     (''message'', PStr ''Authentication failed'')], session2, fx1 @ fx2))
         | Raises e \<Rightarrow>
             (let session2 = snd (add_event cls session1 ERROR None
                               (Some (''Error during authentication: '' @ e)));
                  fx2 = notify_listeners ls (last (events session2))
              in ([(''status'', PStr ''error''), (''message'', PStr e)], session2, fx1 @ fx2)))"

definition handle_inbox_command ::
  "class_defaults \<Rightarrow> collaborators \<Rightarrow> listener list \<Rightarrow> WorkflowSession \<Rightarrow> handler_result" where
  "handle_inbox_command cls collab ls session0 =
     (if \<not> truthy (browser_session_id session0) then
        (let session1 = snd (add_event cls session0 ERROR None
                               (Some ''Cannot navigate to inbox: Not authenticated''));
             fx1 = notify_listeners ls (last (events session1))
         in ([(''status'', PStr ''error''), (''message'', PStr ''Not authenticated'')],
             session1, fx1))
      else
        (let session1 = snd (add_event cls session0 NAVIGATING None (Some ''Navigating to inbox''));
             fx1 = notify_listeners ls (last (events session1)) @
                   [Called (Navigate_to_inbox (browser_session_id session1))]
         in case navigate_to_inbox collab (browser_session_id session1) of
              Returns result \<Rightarrow>
                if br_status result = ''success'' then
                  (let session2 = snd (add_event cls session1 LISTENING None
                                    (Some ''Navigation successful, listening for next command''));
                       fx2 = notify_listeners ls (last (events session2))
                   in ([(''status'', PStr ''success''),
                        (''message'', PStr ''Navigation successful'')], session2, fx1 @ fx2))
                else
                  (let session2 = snd (add_event cls session1 ERROR None
                                    (Some (''Navigation failed: '' @ py_str (br_error result))));
                       fx2 = notify_listeners ls (last (events session2))
                   in ([(''status'', PStr ''error''),
                        (''message'', PStr ''Navigation failed'')], session2, fx1 @ fx2))
            | Raises e \<Rightarrow>
                (let session2 = snd (add_event cls session1 ERROR None
                                  (Some (''Error during navigation: '' @ e)));
                     fx2 = notify_listeners ls (last (events session2))
                 in ([(''status'', PStr ''error''), (''message'', PStr e)], session2, fx1 @ fx2))))"

definition handle_read_email_command ::
  "class_defaults \<Rightarrow> collaborators \<Rightarrow> listener list \<Rightarrow> WorkflowSession \<Rightarrow> handler_result" where
  "handle_read_email_command cls collab ls session0 =
     (if \<not> truthy (browser_session_id session0) then
        (let session1 = snd (add_event cls session0 ERROR None
                               (Some ''Cannot read email: Not authenticated''));
             fx1 = notify_listeners ls (last (events session1))
         in ([(''status'', PStr ''error''), (''message'', PStr ''Not authenticated'')],
             session1, fx1))
      else
        (let session1 = snd (add_event cls session0 READING_EMAIL None (Some ''Reading email''));
             fx1 = notify_listeners ls (last (events session1)) @
                   [Called (Process_email (browser_session_id session1) None)]
         in case process_email collab (browser_session_id session1) None of
              Returns result \<Rightarrow>
                (let session2 = session1\<lparr>current_email_id := Some (email_id (er_email result))\<rparr>;
                     session3 = snd (add_event cls session2 LISTENING
                                  (Some [(''email'', PEmail (er_email result))])
                                  (Some (''Email read: '' @ subject (er_email result))));
                     fx2 = notify_listeners ls (last (events session3))
                 in ([(''status'', PStr ''success''),
                      (''message'', PStr ''Email read successfully''),
                      (''email'', PEmail (er_email result))], session3, fx1 @ fx2))
            | Raises e \<Rightarrow>
                (let session2 = snd (add_event cls session1 ERROR None
                                  (Some (''Error reading email: '' @ e)));
                     fx2 = notify_listeners ls (last (events session2))
                 in ([(''status'', PStr ''error''), (''message'', PStr e)], session2, fx1 @ fx2))))"

definition handle_generate_response_command ::
  "class_defaults \<Rightarrow> collaborators \<Rightarrow> listener list \<Rightarrow> WorkflowSession \<Rightarrow> handler_result" where
  "handle_generate_response_command cls collab ls session0 =
     (if \<not> truthy (current_email_id session0) then
        (let session1 = snd (add_event cls session0 ERROR None
                               (Some ''Cannot generate response: No email selected''));
             fx1 = notify_listeners ls (last (events session1))
         in ([(''status'', PStr ''error''), (''message'', PStr ''No email selected'')],
             session1, fx1))
      else
        (let session1 = snd (add_event cls session0 GENERATING_RESPONSE None
                               (Some ''Generating email response''));
             fx1 = notify_listeners ls (last (events session1)) @
                   [Called (Process_email (browser_session_id session1)
                              (current_email_id session1))]
         in case process_email collab (browser_session_id session1) (current_email_id session1) of
              Returns result \<Rightarrow>
                (let session2 = session1\<lparr>draft_response := Some (er_suggested_response result)\<rparr>;
                     session3 = snd (add_event cls session2 REVIEWING
                                  (Some [(''draft_response'', PStr (er_suggested_response result))])
                                  (Some ''Response generated, ready for review''));
                     fx2 = notify_listeners ls (last (events session3))
                 in ([(''status'', PStr ''success''),
                      (''message'', PStr ''Response generated''),
                      (''draft_response'', PStr (er_suggested_response result))],
                     session3, fx1 @ fx2))
            | Raises e \<Rightarrow>
                (let session2 = snd (add_event cls session1 ERROR None
                                  (Some (''Error generating response: '' @ e)));
                     fx2 = notify_listeners ls (last (events session2))
                 in ([(''status'', PStr ''error''), (''message'', PStr e)], session2, fx1 @ fx2))))"

text \<open>
  \<open>_handle_submit_response_command\<close>. The answer of \<open>submit_draft\<close> is bound to
  \<open>result\<close> and not looked at again.
\<close>

definition handle_submit_response_command ::
  "class_defaults \<Rightarrow> collaborators \<Rightarrow> listener list \<Rightarrow> WorkflowSession \<Rightarrow> bool \<Rightarrow> handler_result" where
  "handle_submit_response_command cls collab ls session0 send =
     (if \<not> truthy (current_email_id session0) then
        (let session1 = snd (add_event cls session0 ERROR None
                               (Some ''Cannot submit response: No email selected''));
             fx1 = notify_listeners ls (last (events session1))
         in ([(''status'', PStr ''error''), (''message'', PStr ''No email selected'')],
             session1, fx1))
      else if \<not> truthy (draft_response session0) then
        (let session1 = snd (add_event cls session0 ERROR None
                               (Some ''Cannot submit response: No draft response created''));
             fx1 = notify_listeners ls (last (events session1))
         in ([(''status'', PStr ''error''), (''message'', PStr ''No draft response created'')],
             session1, fx1))
      else
        (let session1 = snd (add_event cls session0 SUBMITTING None
                               (Some (''Submitting response as '' @
                                      (if send then ''email'' else ''draft''))));
             fx1 = notify_listeners ls (last (events session1)) @
                   [Called (Submit_draft (current_email_id session1) (browser_session_id session1)
                              (draft_response session1) send)]
         in case submit_draft collab (current_email_id session1) (browser_session_id session1)
                   (draft_response session1) send of
              Returns result \<Rightarrow>
                (let action = (if send then ''sent'' else ''saved as draft'');
                     session2 = snd (add_event cls session1 LISTENING None
                                  (Some (''Response '' @ action @ '' successfully'')));
                     fx2 = notify_listeners ls (last (events session2));
                     session3 = session2\<lparr>current_email_id := None, draft_response := None\<rparr>
                 in ([(''status'', PStr ''success''),
                      (''message'', PStr (''Response '' @ action @ '' successfully''))],
                     session3, fx1 @ fx2))
            | Raises e \<Rightarrow>
                (let session2 = snd (add_event cls session1 ERROR None
                                  (Some (''Error submitting response: '' @ e)));
                     fx2 = notify_listeners ls (last (events session2))
                 in ([(''status'', PStr ''error''), (''message'', PStr e)], session2, fx1 @ fx2))))"

text \<open>
  \<open>_process_command\<close>. Every handler catches what its service raises, a listener's fault
  never leaves \<open>_notify_listeners\<close>, and nothing else in a handler raises: the outer
  \<open>except\<close> of the dispatch is never entered and has no branch here.
\<close>

definition process_command ::
  "class_defaults \<Rightarrow> collaborators \<Rightarrow> listener list \<Rightarrow> WorkflowSession \<Rightarrow> string \<Rightarrow> handler_result" where
  "process_command cls collab ls session0 command =
     (let session1 = snd (add_event cls session0 PROCESSING_COMMAND
                            (Some [(''command'', PStr command)])
                            (Some (''Processing command: '' @ command)));
          fx1 = notify_listeners ls (last (events session1));
          command_lower = lower command;
          (result, session2, fx2) =
            (if contains ''login'' command_lower \<or> contains ''log in'' command_lower then
               handle_login_command cls collab ls session1
             else if contains ''inbox'' command_lower \<or> contains ''emails'' command_lower then
               handle_inbox_command cls collab ls session1
             else if contains ''read'' command_lower \<and>
                     (contains ''email'' command_lower \<or> contains ''message'' command_lower) then
               handle_read_email_command cls collab ls session1
             else if contains ''generate'' command_lower \<or> contains ''respond'' command_lower \<or>
                     contains ''reply'' command_lower then
               handle_generate_response_command cls collab ls session1
             else if contains ''submit'' command_lower \<or> contains ''send'' command_lower then
               handle_submit_response_command cls collab ls session1 True
             else if contains ''save'' command_lower \<and> contains ''draft'' command_lower then
               handle_submit_response_command cls collab ls session1 False
             else
               (let session2 = snd (add_event cls session1 ERROR None
                                      (Some (''Unknown command: '' @ command)));
                    fx2 = notify_listeners ls (last (events session2))
                in ([(''status'', PStr ''error''), (''message'', PStr ''Unknown command'')],
                    session2, fx2)))
      in (result, session2, fx1 @ fx2))"

subsection \<open>Session selection and the public operations\<close>

text \<open>
  \<open>sorted(xs, key=key, reverse=True)\<close>: the keys descend, and elements with equal keys keep
  the order they had in \<open>xs\<close> (Python's sort is stable, also when reversed).
\<close>

fun insort_reverse :: "('a \<Rightarrow> nat) \<Rightarrow> 'a \<Rightarrow> 'a list \<Rightarrow> 'a list" where
  "insort_reverse key x [] = [x]"
| "insort_reverse key x (y # ys) =
     (if key y \<le> key x then x # y # ys else y # insort_reverse key x ys)"

definition sorted_reverse :: "('a \<Rightarrow> nat) \<Rightarrow> 'a list \<Rightarrow> 'a list" where
  "sorted_reverse key xs = foldr (insort_reverse key) xs []"

text \<open>
  \<open>_get_active_session\<close>. The session object found is returned with the key it is
  registered under, which stands for the reference to the object.
\<close>

definition get_active_session :: "WorkflowController \<Rightarrow> (string \<times> WorkflowSession) option" where
  "get_active_session ctl =
     (if sessions ctl = [] then None
      else
        (let active_sessions = filter (\<lambda>(k, s). current_state s \<noteq> IDLE) (sessions ctl)
         in if active_sessions = [] then None
            else Some (hd (sorted_reverse (\<lambda>(k, s). start_time s) active_sessions))))"

definition register_event_listener :: "listener \<Rightarrow> WorkflowController \<Rightarrow> WorkflowController" where
  "register_event_listener callback ctl =
     ctl\<lparr>event_listeners := event_listeners ctl @ [callback]\<rparr>"

text \<open>
  Running \<open>_process_command\<close> on the session object registered under \<open>k\<close>: the object is
  changed in place, so the registry holds the changed session afterwards.
\<close>

definition process_registered ::
  "class_defaults \<Rightarrow> collaborators \<Rightarrow> string \<Rightarrow> WorkflowSession \<Rightarrow> string \<Rightarrow> WorkflowController
     \<Rightarrow> pydict \<times> WorkflowController \<times> effect list" where
  "process_registered cls collab k session command ctl =
     (let (result, session', fx) = process_command cls collab (event_listeners ctl) session command
      in (result, ctl\<lparr>sessions := AList.update k session' (sessions ctl)\<rparr>, fx))"

text \<open>
  \<open>process_voice_command\<close>; \<open>new_id\<close> is the identifier \<open>create_session\<close> draws if it is
  called. The lookup of the identifier just registered finds it (lemma
  \<open>create_session_lookup\<close> below), so its \<open>None\<close> case is never taken.
\<close>

definition process_voice_command ::
  "class_defaults \<Rightarrow> collaborators \<Rightarrow> string \<Rightarrow> string \<Rightarrow> WorkflowController
     \<Rightarrow> pydict \<times> WorkflowController \<times> effect list" where
  "process_voice_command cls collab new_id command ctl =
     (case get_active_session ctl of
        Some (k, active_session) \<Rightarrow> process_registered cls collab k active_session command ctl
      | None \<Rightarrow>
          (let (result, ctl1, fx0) = create_session cls new_id ctl
           in case map_of (sessions ctl1) new_id of
                None \<Rightarrow> (result, ctl1, fx0)
              | Some active_session \<Rightarrow>
                  (let (result', ctl2, fx1) =
                         process_registered cls collab new_id active_session command ctl1
                   in (result', ctl2, fx0 @ fx1))))"

text \<open>
  \<open>_handle_voice_event\<close>, on the events the voice activator sends: its two kinds, the
  second with the command text, and any other value of the \<open>event\<close> key.
\<close>

datatype voice_event = Wake_word_detected | Command_detected string | Other_event

definition handle_voice_event ::
  "class_defaults \<Rightarrow> collaborators \<Rightarrow> string \<Rightarrow> voice_event \<Rightarrow> WorkflowController
     \<Rightarrow> WorkflowController \<times> effect list" where
  "handle_voice_event cls collab new_id event ctl =
     (case event of
        Wake_word_detected \<Rightarrow> snd (create_session cls new_id ctl)
      | Command_detected command \<Rightarrow>
          (case get_active_session ctl of
             Some (k, active_session) \<Rightarrow>
               snd (process_registered cls collab k active_session command ctl)
           | None \<Rightarrow> (ctl, []))
      | Other_event \<Rightarrow> (ctl, []))"

text \<open>
  \<open>get_session\<close> and \<open>get_all_sessions\<close>. \<open>info_start_time\<close> holds the instant that
  \<open>isoformat\<close> prints.
\<close>

record session_info =
  info_session_id :: string
  info_browser_session_id :: "string option"
  info_current_state :: WorkflowState
  info_current_email_id :: "string option"
  info_has_draft :: bool
  info_start_time :: datetime
  info_events :: nat
  info_last_event :: "WorkflowEvent option"

definition get_session :: "WorkflowController \<Rightarrow> string \<Rightarrow> session_info option" where
  "get_session ctl sid =
     (case map_of (sessions ctl) sid of
        None \<Rightarrow> None
      | Some session \<Rightarrow>
          Some \<lparr>info_session_id = session_id session,
                info_browser_session_id = browser_session_id session,
                info_current_state = current_state session,
                info_current_email_id = current_email_id session,
                info_has_draft = truthy (draft_response session),
                info_start_time = start_time session,
                info_events = length (events session),
                info_last_event = (if events session \<noteq> [] then Some (last (events session))
                                   else None)\<rparr>)"

definition get_all_sessions :: "WorkflowController \<Rightarrow> session_info option list" where
  "get_all_sessions ctl = map (\<lambda>sid. get_session ctl sid) (map fst (sessions ctl))"

text \<open>
  The controllers a process can hold between two operations: the one \<open>__init__\<close> builds,
  and whatever an operation leaves behind, for any identifier drawn, any command and any
  behaviour of the services and listeners.
\<close>

inductive reachable :: "class_defaults \<Rightarrow> WorkflowController \<Rightarrow> bool" for cls where
  r_init: "reachable cls init_controller"
| r_register: "reachable cls ctl \<Longrightarrow> reachable cls (register_event_listener callback ctl)"
| r_create: "reachable cls ctl \<Longrightarrow> reachable cls (fst (snd (create_session cls sid ctl)))"
| r_end: "reachable cls ctl \<Longrightarrow> reachable cls (fst (snd (end_session cls collab sid ctl)))"
| r_command:
    "reachable cls ctl \<Longrightarrow>
     reachable cls (fst (snd (process_voice_command cls collab new_id command ctl)))"
| r_voice:
    "reachable cls ctl \<Longrightarrow> reachable cls (fst (handle_voice_event cls collab new_id event ctl))"

subsection \<open>Notions used in the properties\<close>

text \<open>The listener calls among the effects, in order: which listener, with which event.\<close>

definition invocations :: "effect list \<Rightarrow> (nat \<times> WorkflowEvent) list" where
  "invocations fx = concat (map (\<lambda>e. case e of Invoked i ev \<Rightarrow> [(i, ev)] | _ \<Rightarrow> []) fx)"

text \<open>
  What one command does to a session: it appends at least one event, none of state
  \<open>IDLE\<close> and each stamped with the class default, leaves the session in the state of the
  last one, and keeps identifier and start time.
\<close>

definition session_step :: "class_defaults \<Rightarrow> WorkflowSession \<Rightarrow> WorkflowSession \<Rightarrow> bool" where
  "session_step cls s s' \<longleftrightarrow>
     (\<exists>new. new \<noteq> [] \<and> events s' = events s @ new \<and>
        list_all (\<lambda>e. timestamp e = event_timestamp_default cls \<and> state e \<noteq> IDLE) new \<and>
        current_state s' = state (last new)) \<and>
     start_time s' = start_time s \<and> session_id s' = session_id s"

definition session_ok :: "class_defaults \<Rightarrow> string \<Rightarrow> WorkflowSession \<Rightarrow> bool" where
  "session_ok cls k s \<longleftrightarrow>
     session_id s = k \<and> events s \<noteq> [] \<and> current_state s = state (last (events s)) \<and>
     current_state s \<noteq> IDLE \<and> start_time s = session_start_time_default cls \<and>
     list_all (\<lambda>e. timestamp e = event_timestamp_default cls) (events s)"

definition registry_ok :: "class_defaults \<Rightarrow> WorkflowController \<Rightarrow> bool" where
  "registry_ok cls ctl \<longleftrightarrow>
     distinct (map fst (sessions ctl)) \<and> list_all (\<lambda>(k, s). session_ok cls k s) (sessions ctl)"

text \<open>
  The dispatch as a rule list: pairs of a test on the lowered command and the handler it
  selects, tried from the top, the first test that holds deciding.
\<close>

datatype handler_name =
    Login_handler
  | Inbox_handler
  | Read_email_handler
  | Generate_response_handler
  | Submit_response_handler bool

definition dispatch_rules :: "((string \<Rightarrow> bool) \<times> handler_name) list" where
  "dispatch_rules =
     [(\<lambda>c. contains ''login'' c \<or> contains ''log in'' c, Login_handler),
      (\<lambda>c. contains ''inbox'' c \<or> contains ''emails'' c, Inbox_handler),
      (\<lambda>c. contains ''read'' c \<and> (contains ''email'' c \<or> contains ''message'' c),
       Read_email_handler),
      (\<lambda>c. contains ''generate'' c \<or> contains ''respond'' c \<or> contains ''reply'' c,
       Generate_response_handler),
      (\<lambda>c. contains ''submit'' c \<or> contains ''send'' c, Submit_response_handler True),
      (\<lambda>c. contains ''save'' c \<and> contains ''draft'' c, Submit_response_handler False)]"

fun first_match :: "((string \<Rightarrow> bool) \<times> 'h) list \<Rightarrow> string \<Rightarrow> 'h option" where
  "first_match [] c = None"
| "first_match ((p, h) # rules) c = (if p c then Some h else first_match rules c)"

definition classify :: "string \<Rightarrow> handler_name option" where
  "classify command = first_match dispatch_rules (lower command)"

fun run_handler ::
  "class_defaults \<Rightarrow> collaborators \<Rightarrow> listener list \<Rightarrow> WorkflowSession \<Rightarrow> handler_name
     \<Rightarrow> handler_result" where
  "run_handler cls collab ls s Login_handler = handle_login_command cls collab ls s"
| "run_handler cls collab ls s Inbox_handler = handle_inbox_command cls collab ls s"
| "run_handler cls collab ls s Read_email_handler = handle_read_email_command cls collab ls s"
| "run_handler cls collab ls s Generate_response_handler =
     handle_generate_response_command cls collab ls s"
| "run_handler cls collab ls s (Submit_response_handler send) =
     handle_submit_response_command cls collab ls s send"

definition dispatch_by_rules ::
  "class_defaults \<Rightarrow> collaborators \<Rightarrow> listener list \<Rightarrow> WorkflowSession \<Rightarrow> string \<Rightarrow> handler_result" where
  "dispatch_by_rules cls collab ls session0 command =
     (let session1 = snd (add_event cls session0 PROCESSING_COMMAND
                            (Some [(''command'', PStr command)])
                            (Some (''Processing command: '' @ command)));
          fx1 = notify_listeners ls (last (events session1));
          (result, session2, fx2) =
            (case classify command of
               Some h \<Rightarrow> run_handler cls collab ls session1 h
             | None \<Rightarrow>
                 (let session2 = snd (add_event cls session1 ERROR None
                                        (Some (''Unknown command: '' @ command)));
                      fx2 = notify_listeners ls (last (events session2))
                  in ([(''status'', PStr ''error''), (''message'', PStr ''Unknown command'')],
                      session2, fx2)))
      in (result, session2, fx1 @ fx2))"

text \<open>
  The calls that telling every listener in \<open>ls\<close> about each of the events \<open>evs\<close>, one
  event after the other, consists of; and the events a session has gained.
\<close>

definition fanout :: "listener list \<Rightarrow> WorkflowEvent list \<Rightarrow> (nat \<times> WorkflowEvent) list" where
  "fanout ls evs = concat (map (\<lambda>ev. map (\<lambda>i. (i, ev)) [0..<length ls]) evs)"

definition new_events :: "WorkflowSession \<Rightarrow> WorkflowSession \<Rightarrow> WorkflowEvent list" where
  "new_events s s' = drop (length (events s)) (events s')"

text \<open>
  What a caller gets from a handler, the result and the session, and from an operation of
  the controller, the result and the registry.
\<close>

definition verdict :: "handler_result \<Rightarrow> pydict \<times> WorkflowSession" where
  "verdict r = (fst r, fst (snd r))"

definition answer :: "pydict \<times> WorkflowController \<times> effect list
    \<Rightarrow> pydict \<times> (string \<times> WorkflowSession) list" where
  "answer r = (fst r, sessions (fst (snd r)))"

subsection \<open>Example data\<close>

text \<open>
  The placeholder services of \<open>app/services\<close>, with \<open>browser-1\<close> for the identifier the
  login draws, and a mail service whose \<open>submit_draft\<close> reports a failure in its answer.
\<close>

definition stub_services :: collaborators where
  "stub_services =
     \<lparr>manage_session_end = (\<lambda>b. Returns \<lparr>br_session_id = Some b, br_status = ''success'',
          br_content = ''Browser action end completed'', br_error = None\<rparr>),
      login_to_crm = Returns \<lparr>br_session_id = Some ''browser-1'', br_status = ''success'',
          br_content = ''Login successful'', br_error = None\<rparr>,
      navigate_to_inbox = (\<lambda>b. Returns \<lparr>br_session_id = b, br_status = ''success'',
          br_content = ''Navigated to inbox'', br_error = None\<rparr>),
      process_email = (\<lambda>b e. Returns
         \<lparr>er_email = \<lparr>email_id = (case e of None \<Rightarrow> ''email123''
                                    | Some i \<Rightarrow> if i = [] then ''email123'' else i),
                      subject = ''Application Status Inquiry'',
                      sender = ''student@example.com'',
                      recipient = ''admissions@illinoistech.edu'',
                      date = ''2023-09-15T14:30:00Z'',
                      body = ''Hello''\<rparr>,
          er_suggested_response = ''Thank you for your inquiry.'',
          er_intent = ''status_inquiry''\<rparr>),
      submit_draft = (\<lambda>e b t send. Returns \<lparr>sr_email_id = e, sr_status = ''success'',
          sr_action = (if send then ''sent'' else ''saved as draft''),
          sr_timestamp = ''2023-09-15T15:45:00Z''\<rparr>)\<rparr>"

definition rejecting_mail :: collaborators where
  "rejecting_mail =
     stub_services\<lparr>submit_draft := (\<lambda>e b t send. Returns \<lparr>sr_email_id = e,
        sr_status = ''error'', sr_action = ''none'', sr_timestamp = ''2023-09-15T15:45:00Z''\<rparr>)\<rparr>"

definition example_defaults :: class_defaults where
  "example_defaults = \<lparr>event_timestamp_default = 100, session_start_time_default = 100\<rparr>"

text \<open>A listener that raises on every event and one that returns.\<close>

definition failing_listener :: listener where
  "failing_listener = \<lparr>is_coroutine = False, run = (\<lambda>e. Raised ''boom'')\<rparr>"

definition quiet_listener :: listener where
  "quiet_listener = \<lparr>is_coroutine = True, run = (\<lambda>e. Returned)\<rparr>"

text \<open>One session \<open>a\<close> registered; then two sessions, \<open>A\<close> created before \<open>B\<close>.\<close>

definition ctl_one :: WorkflowController where
  "ctl_one = fst (snd (create_session example_defaults ''a'' init_controller))"

definition ctl_two :: WorkflowController where
  "ctl_two = fst (snd (create_session example_defaults ''B''
                (fst (snd (create_session example_defaults ''A'' init_controller)))))"

text \<open>
  A controller with one listener, which raises, after the command \<open>Login to Slate\<close> with
  no session registered before.
\<close>

definition ctl_login :: WorkflowController where
  "ctl_login = fst (snd (process_voice_command example_defaults stub_services ''s1''
                  ''Login to Slate'' (register_event_listener failing_listener init_controller)))"

section \<open>Properties\<close>

subsection \<open>Events and listeners\<close>

lemma snd_add_event:
  "snd (add_event cls s st d m) =
     s\<lparr>events := events s @ [new_WorkflowEvent cls st d m], current_state := st\<rparr>"
  by (simp add: add_event_def Let_def)

lemma last_events_add_event:
  "last (events (snd (add_event cls s st d m))) = new_WorkflowEvent cls st d m"
  by (simp add: snd_add_event)

lemma invocations_append: "invocations (xs @ ys) = invocations xs @ invocations ys"
  by (simp add: invocations_def)

lemma invocations_notify_from:
  "invocations (notify_from i ls ev) = map (\<lambda>j. (j, ev)) [i..<i + length ls]"
proof (induction ls arbitrary: i)
  case Nil
  then show ?case by (simp add: invocations_def)
next
  case (Cons l ls)
  have "invocations (notify_from i (l # ls) ev) = (i, ev) # invocations (notify_from (Suc i) ls ev)"
    by (cases "run l ev") (simp_all add: invocations_def)
  moreover have "[i..<i + length (l # ls)] = i # [Suc i..<Suc i + length ls]"
    by (subst upt_rec) simp
  ultimately show ?case using Cons.IH [of "Suc i"] by (simp del: upt_Suc)
qed

lemma invocations_notify_listeners:
  "invocations (notify_listeners ls ev) = map (\<lambda>j. (j, ev)) [0..<length ls]"
  using invocations_notify_from [of 0 ls ev] by (simp add: notify_listeners_def)

lemma map_of_update: "map_of (AList.update k v al) = (map_of al)(k \<mapsto> v)"
  by (rule AList.update_conv')

subsection \<open>What a command does to a session\<close>

lemma session_step_trans:
  assumes "session_step cls s s'" and "session_step cls s' s''"
  shows "session_step cls s s''"
proof -
  from assms(1) obtain n1 where n1: "n1 \<noteq> []" "events s' = events s @ n1"
    "list_all (\<lambda>e. timestamp e = event_timestamp_default cls \<and> state e \<noteq> IDLE) n1"
    and f1: "start_time s' = start_time s" "session_id s' = session_id s"
    unfolding session_step_def by blast
  from assms(2) obtain n2 where n2: "n2 \<noteq> []" "events s'' = events s' @ n2"
    "list_all (\<lambda>e. timestamp e = event_timestamp_default cls \<and> state e \<noteq> IDLE) n2"
    "current_state s'' = state (last n2)"
    and f2: "start_time s'' = start_time s'" "session_id s'' = session_id s'"
    unfolding session_step_def by blast
  have "n1 @ n2 \<noteq> []" "events s'' = events s @ (n1 @ n2)"
    "list_all (\<lambda>e. timestamp e = event_timestamp_default cls \<and> state e \<noteq> IDLE) (n1 @ n2)"
    "current_state s'' = state (last (n1 @ n2))"
    using n1 n2 by simp_all
  then show ?thesis
    unfolding session_step_def using f1 f2 by (intro conjI exI [of _ "n1 @ n2"]) simp_all
qed

lemmas handler_simps = Let_def snd_add_event new_WorkflowEvent_def session_step_def

lemma handle_login_step: "session_step cls s (fst (snd (handle_login_command cls collab ls s)))"
  by (simp add: handle_login_command_def handler_simps split: outcome.split)

lemma handle_inbox_step: "session_step cls s (fst (snd (handle_inbox_command cls collab ls s)))"
  by (simp add: handle_inbox_command_def handler_simps split: outcome.split)

lemma handle_read_email_step:
  "session_step cls s (fst (snd (handle_read_email_command cls collab ls s)))"
  by (simp add: handle_read_email_command_def handler_simps split: outcome.split)

lemma handle_generate_step:
  "session_step cls s (fst (snd (handle_generate_response_command cls collab ls s)))"
  by (simp add: handle_generate_response_command_def handler_simps split: outcome.split)

lemma handle_submit_step:
  "session_step cls s (fst (snd (handle_submit_response_command cls collab ls s send)))"
  by (simp add: handle_submit_response_command_def handler_simps split: outcome.split)

lemma add_event_step:
  "st \<noteq> IDLE \<Longrightarrow> session_step cls s (snd (add_event cls s st d m))"
  by (simp add: handler_simps)

lemma process_command_step:
  "session_step cls s (fst (snd (process_command cls collab ls s command)))"
proof -
  let ?s1 = "snd (add_event cls s PROCESSING_COMMAND (Some [(''command'', PStr command)])
                   (Some (''Processing command: '' @ command)))"
  have a: "session_step cls s ?s1" by (rule add_event_step) simp
  have u: "session_step cls ?s1 (snd (add_event cls ?s1 ERROR None m))" for m
    by (rule add_event_step) simp
  have "session_step cls ?s1 (fst (snd (process_command cls collab ls s command)))"
    using handle_login_step [of cls ?s1 collab ls] handle_inbox_step [of cls ?s1 collab ls]
      handle_read_email_step [of cls ?s1 collab ls] handle_generate_step [of cls ?s1 collab ls]
      handle_submit_step [of cls ?s1 collab ls] u
    by (simp add: process_command_def Let_def split_def)
  with a show ?thesis by (rule session_step_trans)
qed

subsection \<open>The registry between operations\<close>

lemma session_ok_step:
  assumes "session_ok cls k s" and "session_step cls s s'"
  shows "session_ok cls k s'"
proof -
  from assms(2) obtain new where n: "new \<noteq> []" "events s' = events s @ new"
    "list_all (\<lambda>e. timestamp e = event_timestamp_default cls \<and> state e \<noteq> IDLE) new"
    "current_state s' = state (last new)"
    and f: "start_time s' = start_time s" "session_id s' = session_id s"
    unfolding session_step_def by blast
  from n(1,3) have "state (last new) \<noteq> IDLE"
    by (simp add: list_all_iff)
  moreover from n(3) have "list_all (\<lambda>e. timestamp e = event_timestamp_default cls) new"
    by (simp add: list_all_iff)
  ultimately show ?thesis
    using assms(1) n f by (simp add: session_ok_def)
qed

lemma session_ok_created:
  "session_ok cls sid (snd (add_event cls (new_WorkflowSession cls sid) LISTENING d m))"
  by (simp add: session_ok_def snd_add_event new_WorkflowSession_def new_WorkflowEvent_def)

lemma set_update_subset: "set (AList.update k v al) \<subseteq> insert (k, v) (set al)"
  by (induction al) auto

lemma registry_ok_update:
  assumes "registry_ok cls ctl" and "session_ok cls k s"
  shows "registry_ok cls (ctl\<lparr>sessions := AList.update k s (sessions ctl)\<rparr>)"
  using assms set_update_subset [of k s "sessions ctl"]
  by (auto simp: registry_ok_def list_all_iff AList.distinct_update)

lemma registry_ok_delete:
  assumes "registry_ok cls ctl"
  shows "registry_ok cls (ctl\<lparr>sessions := AList.delete k (sessions ctl)\<rparr>)"
proof -
  have "set (AList.delete k (sessions ctl)) \<subseteq> set (sessions ctl)"
    by (auto simp: AList.delete_eq)
  with assms show ?thesis
    by (auto simp: registry_ok_def list_all_iff AList.distinct_delete)
qed

lemma set_insort_reverse: "set (insort_reverse key x xs) = insert x (set xs)"
  by (induction xs) auto

lemma set_sorted_reverse: "set (sorted_reverse key xs) = set xs"
  by (induction xs) (simp_all add: sorted_reverse_def set_insort_reverse)

lemma sorted_reverse_constant:
  "list_all (\<lambda>x. key x = c) xs \<Longrightarrow> sorted_reverse key xs = xs"
proof (induction xs)
  case Nil
  then show ?case by (simp add: sorted_reverse_def)
next
  case (Cons x xs)
  then have "sorted_reverse key (x # xs) = insort_reverse key x xs"
    by (simp add: sorted_reverse_def)
  with Cons.prems show ?case by (cases xs) simp_all
qed

lemma get_active_session_member:
  assumes "get_active_session ctl = Some (k, s)"
  shows "(k, s) \<in> set (sessions ctl)"
proof -
  let ?act = "filter (\<lambda>(k, s). current_state s \<noteq> IDLE) (sessions ctl)"
  from assms have ne: "?act \<noteq> []"
    and h: "(k, s) = hd (sorted_reverse (\<lambda>(k, s). start_time s) ?act)"
    by (auto simp: get_active_session_def Let_def split: if_splits)
  from ne have "sorted_reverse (\<lambda>(k, s). start_time s) ?act \<noteq> []"
    using set_sorted_reverse [of "\<lambda>(k, s). start_time s" ?act] by (metis set_empty)
  then have "(k, s) \<in> set (sorted_reverse (\<lambda>(k, s). start_time s) ?act)"
    using h by simp
  then show ?thesis by (simp add: set_sorted_reverse)
qed

lemma process_registered_ok:
  assumes "registry_ok cls ctl" and "(k, s) \<in> set (sessions ctl)"
  shows "registry_ok cls (fst (snd (process_registered cls collab k s command ctl)))"
proof -
  from assms have "session_ok cls k s"
    by (auto simp: registry_ok_def list_all_iff)
  then have "session_ok cls k (fst (snd (process_command cls collab (event_listeners ctl) s command)))"
    using process_command_step by (rule session_ok_step)
  with assms(1) show ?thesis
    by (simp add: process_registered_def split_def Let_def registry_ok_update)
qed

lemma process_registered_listeners:
  "event_listeners (fst (snd (process_registered cls collab k s command ctl))) = event_listeners ctl"
  by (simp add: process_registered_def split_def Let_def)

lemma create_session_ok:
  assumes "registry_ok cls ctl"
  shows "registry_ok cls (fst (snd (create_session cls sid ctl)))"
  using assms by (simp add: create_session_def Let_def registry_ok_update session_ok_created)

lemma create_session_lookup:
  "map_of (sessions (fst (snd (create_session cls sid ctl)))) sid =
     Some (snd (add_event cls (new_WorkflowSession cls sid) LISTENING None
                  (Some ''Session created, listening for commands'')))"
  by (simp add: create_session_def Let_def map_of_update)

lemma end_session_ok:
  assumes "registry_ok cls ctl"
  shows "registry_ok cls (fst (snd (end_session cls collab sid ctl)))"
proof (cases "map_of (sessions ctl) sid")
  case None
  with assms show ?thesis by (simp add: end_session_def)
next
  case (Some s)
  then have "fst (snd (end_session cls collab sid ctl)) =
      ctl\<lparr>sessions := AList.delete sid (sessions ctl)\<rparr>"
    by (simp add: end_session_def Let_def AList.delete_update_same)
  with assms show ?thesis by (simp add: registry_ok_delete)
qed

lemma process_voice_command_ok:
  assumes "registry_ok cls ctl"
  shows "registry_ok cls (fst (snd (process_voice_command cls collab new_id command ctl)))"
proof (cases "get_active_session ctl")
  case None
  let ?c1 = "fst (snd (create_session cls new_id ctl))"
  let ?s1 = "snd (add_event cls (new_WorkflowSession cls new_id) LISTENING None
                  (Some ''Session created, listening for commands''))"
  have l: "map_of (sessions ?c1) new_id = Some ?s1" by (rule create_session_lookup)
  then have m: "(new_id, ?s1) \<in> set (sessions ?c1)" by (rule map_of_SomeD)
  have "registry_ok cls ?c1" using assms by (rule create_session_ok)
  then have "registry_ok cls (fst (snd (process_registered cls collab new_id ?s1 command ?c1)))"
    using m by (rule process_registered_ok)
  then show ?thesis using None l
    by (simp add: process_voice_command_def split_def Let_def)
next
  case (Some p)
  obtain k s where p: "p = (k, s)" by (cases p)
  with Some have "(k, s) \<in> set (sessions ctl)" by (simp add: get_active_session_member)
  with assms have "registry_ok cls (fst (snd (process_registered cls collab k s command ctl)))"
    by (rule process_registered_ok)
  with Some p show ?thesis by (simp add: process_voice_command_def)
qed

lemma handle_voice_event_ok:
  assumes "registry_ok cls ctl"
  shows "registry_ok cls (fst (handle_voice_event cls collab new_id event ctl))"
proof (cases event)
  case Wake_word_detected
  with assms show ?thesis by (simp add: handle_voice_event_def create_session_ok)
next
  case (Command_detected command)
  show ?thesis
  proof (cases "get_active_session ctl")
    case None
    with assms Command_detected show ?thesis by (simp add: handle_voice_event_def)
  next
    case (Some p)
    obtain k s where p: "p = (k, s)" by (cases p)
    with Some have "(k, s) \<in> set (sessions ctl)" by (simp add: get_active_session_member)
    with assms have "registry_ok cls (fst (snd (process_registered cls collab k s command ctl)))"
      by (rule process_registered_ok)
    with Some p Command_detected show ?thesis by (simp add: handle_voice_event_def)
  qed
next
  case Other_event
  with assms show ?thesis by (simp add: handle_voice_event_def)
qed

lemma reachable_registry_ok: "reachable cls ctl \<Longrightarrow> registry_ok cls ctl"
proof (induction rule: reachable.induct)
  case r_init
  show ?case by (simp add: registry_ok_def init_controller_def)
next
  case (r_register ctl callback)
  then show ?case by (simp add: registry_ok_def register_event_listener_def)
next
  case (r_create ctl sid)
  then show ?case by (simp add: create_session_ok)
next
  case (r_end ctl collab sid)
  then show ?case by (simp add: end_session_ok)
next
  case (r_command ctl collab new_id command)
  then show ?case by (simp add: process_voice_command_ok)
next
  case (r_voice ctl collab new_id event)
  then show ?case by (simp add: handle_voice_event_ok)
qed

subsection \<open>Session creation and the end of an unknown session\<close>

text \<open>
  C5. Every call to \<open>create_session\<close> yields a session whose state is \<open>LISTENING\<close> and
  whose event list holds exactly one event, of state \<open>LISTENING\<close>; the session is
  registered under the identifier drawn, every listener is called with that event, and the
  identifier is returned with the status \<open>created\<close>.
\<close>

theorem create_session_registers:
  "(let event = \<lparr>state = LISTENING, timestamp = event_timestamp_default cls, data = None,
                  message = Some ''Session created, listening for commands''\<rparr>;
        session = \<lparr>session_id = sid, browser_session_id = None, current_email_id = None,
                   current_state = LISTENING, draft_response = None,
                   start_time = session_start_time_default cls, events = [event]\<rparr>
    in create_session cls sid ctl =
         ([(''session_id'', PStr sid), (''status'', PStr ''created'')],
          ctl\<lparr>sessions := AList.update sid session (sessions ctl)\<rparr>,
          notify_listeners (event_listeners ctl) event)
       \<and> map_of (sessions (fst (snd (create_session cls sid ctl)))) sid = Some session
       \<and> invocations (snd (snd (create_session cls sid ctl))) =
           map (\<lambda>i. (i, event)) [0..<length (event_listeners ctl)])"
  by (simp add: create_session_def Let_def snd_add_event new_WorkflowSession_def
      new_WorkflowEvent_def map_of_update invocations_notify_listeners)

text \<open>
  C6. For a session identifier that is not in the registry, \<open>end_session\<close> returns the
  status \<open>error\<close> with the message \<open>Session not found\<close>, leaves the controller as it
  was and calls nothing.
\<close>

theorem end_session_unknown:
  "sid \<notin> fst ` set (sessions ctl) \<Longrightarrow>
   end_session cls collab sid ctl =
     ([(''status'', PStr ''error''), (''message'', PStr ''Session not found'')], ctl, [])"
proof -
  assume "sid \<notin> fst ` set (sessions ctl)"
  then have "map_of (sessions ctl) sid = None"
    by (simp add: map_of_eq_None_iff)
  then show ?thesis
    by (simp add: end_session_def)
qed

theorem end_session_unknown_witness:
  "''b'' \<notin> fst ` set (sessions ctl_one) \<and>
   end_session example_defaults stub_services ''b'' ctl_one =
     ([(''status'', PStr ''error''), (''message'', PStr ''Session not found'')], ctl_one, [])"
proof -
  have h: "''b'' \<notin> fst ` set (sessions ctl_one)"
    by (simp add: ctl_one_def create_session_def init_controller_def Let_def)
  show ?thesis using h end_session_unknown [OF h] by simp
qed

subsection \<open>The dispatch as a rule list\<close>

lemma classify_chain:
  "classify command =
     (let c = lower command in
      if contains ''login'' c \<or> contains ''log in'' c then Some Login_handler
      else if contains ''inbox'' c \<or> contains ''emails'' c then Some Inbox_handler
      else if contains ''read'' c \<and> (contains ''email'' c \<or> contains ''message'' c)
        then Some Read_email_handler
      else if contains ''generate'' c \<or> contains ''respond'' c \<or> contains ''reply'' c
        then Some Generate_response_handler
      else if contains ''submit'' c \<or> contains ''send'' c then Some (Submit_response_handler True)
      else if contains ''save'' c \<and> contains ''draft'' c then Some (Submit_response_handler False)
      else None)"
  by (simp add: classify_def dispatch_rules_def Let_def split del: if_split cong del: if_weak_cong)

lemma case_option_if:
  "(case (if b then Some h else r) of None \<Rightarrow> d | Some x \<Rightarrow> f x) =
   (if b then f h else (case r of None \<Rightarrow> d | Some x \<Rightarrow> f x))"
  by simp

lemma process_command_dispatch:
  "process_command cls collab ls s command = dispatch_by_rules cls collab ls s command"
  by (simp add: process_command_def dispatch_by_rules_def classify_chain case_option_if Let_def
      split del: if_split cong del: if_weak_cong)

subsection \<open>Every appended event reaches every listener\<close>

lemma notify_from_enumerate:
  "notify_from i ls event =
     concat (map (\<lambda>(j, l). Invoked j event #
                    (case run l event of
                       Returned \<Rightarrow> []
                     | Raised e \<Rightarrow> [Listener_error j (''Error in event listener: '' @ e)]))
              (enumerate i ls))"
  by (induction ls arbitrary: i) simp_all

lemma invocations_Called: "invocations (Called c # fx) = invocations fx"
  by (simp add: invocations_def)

lemma invocations_Nil: "invocations [] = []"
  by (simp add: invocations_def)

lemmas fanout_simps = Let_def snd_add_event new_WorkflowEvent_def invocations_append
  invocations_notify_listeners invocations_Called invocations_Nil fanout_def new_events_def

lemma handle_login_fanout:
  "invocations (snd (snd (handle_login_command cls collab ls s))) =
     fanout ls (new_events s (fst (snd (handle_login_command cls collab ls s))))"
  by (simp add: handle_login_command_def fanout_simps split: outcome.split)

lemma handle_inbox_fanout:
  "invocations (snd (snd (handle_inbox_command cls collab ls s))) =
     fanout ls (new_events s (fst (snd (handle_inbox_command cls collab ls s))))"
  by (simp add: handle_inbox_command_def fanout_simps split: outcome.split)

lemma handle_read_email_fanout:
  "invocations (snd (snd (handle_read_email_command cls collab ls s))) =
     fanout ls (new_events s (fst (snd (handle_read_email_command cls collab ls s))))"
  by (simp add: handle_read_email_command_def fanout_simps split: outcome.split)

lemma handle_generate_fanout:
  "invocations (snd (snd (handle_generate_response_command cls collab ls s))) =
     fanout ls (new_events s (fst (snd (handle_generate_response_command cls collab ls s))))"
  by (simp add: handle_generate_response_command_def fanout_simps split: outcome.split)

lemma handle_submit_fanout:
  "invocations (snd (snd (handle_submit_response_command cls collab ls s send))) =
     fanout ls (new_events s (fst (snd (handle_submit_response_command cls collab ls s send))))"
  by (simp add: handle_submit_response_command_def fanout_simps split: outcome.split)

lemma new_events_step:
  assumes "session_step cls s s'"
  shows "events s' = events s @ new_events s s'"
  using assms by (auto simp: session_step_def new_events_def)

lemma new_events_trans:
  assumes "session_step cls s s'" and "session_step cls s' s''"
  shows "new_events s s'' = new_events s s' @ new_events s' s''"
proof -
  have "events s'' = events s @ (new_events s s' @ new_events s' s'')"
    using new_events_step [OF assms(1)] new_events_step [OF assms(2)] by simp
  then have "drop (length (events s)) (events s'') = new_events s s' @ new_events s' s''"
    by (metis append_eq_conv_conj)
  then show ?thesis by (simp only: new_events_def [of s s''])
qed

lemma fanout_append: "fanout ls (xs @ ys) = fanout ls xs @ fanout ls ys"
  by (simp add: fanout_def)

lemma process_command_fanout:
  "invocations (snd (snd (process_command cls collab ls s command))) =
     fanout ls (new_events s (fst (snd (process_command cls collab ls s command))))"
proof -
  let ?s1 = "snd (add_event cls s PROCESSING_COMMAND (Some [(''command'', PStr command)])
                   (Some (''Processing command: '' @ command)))"
  let ?r = "process_command cls collab ls s command"
  have a: "session_step cls s ?s1" by (rule add_event_step) simp
  have b: "session_step cls ?s1 (fst (snd ?r))"
    using handle_login_step [of cls ?s1 collab ls] handle_inbox_step [of cls ?s1 collab ls]
      handle_read_email_step [of cls ?s1 collab ls] handle_generate_step [of cls ?s1 collab ls]
      handle_submit_step [of cls ?s1 collab ls]
      add_event_step [of ERROR cls ?s1 None]
    by (simp add: process_command_def Let_def split_def)
  have n1: "new_events s ?s1 = [last (events ?s1)]"
    by (simp add: new_events_def snd_add_event)
  have n: "new_events s (fst (snd ?r)) = [last (events ?s1)] @ new_events ?s1 (fst (snd ?r))"
    using new_events_trans [OF a b] n1 by (simp only:)
  have "invocations (snd (snd ?r)) =
      fanout ls [last (events ?s1)] @ fanout ls (new_events ?s1 (fst (snd ?r)))"
    using handle_login_fanout [of cls collab ls ?s1] handle_inbox_fanout [of cls collab ls ?s1]
      handle_read_email_fanout [of cls collab ls ?s1] handle_generate_fanout [of cls collab ls ?s1]
      handle_submit_fanout [of cls collab ls ?s1]
    by (simp add: process_command_def Let_def split_def invocations_append
        invocations_notify_listeners fanout_def new_events_def snd_add_event
        new_WorkflowEvent_def)
  then show ?thesis
    by (simp only: n fanout_append)
qed

subsection \<open>Listeners do not change results\<close>

text \<open>The result and the session a handler leaves do not depend on the listeners.\<close>


lemmas verdict_simps = verdict_def Let_def snd_add_event new_WorkflowEvent_def

lemma handle_login_verdict:
  "verdict (handle_login_command cls collab ls s) = verdict (handle_login_command cls collab ls' s)"
  by (simp add: handle_login_command_def verdict_simps split: outcome.split)

lemma handle_inbox_verdict:
  "verdict (handle_inbox_command cls collab ls s) = verdict (handle_inbox_command cls collab ls' s)"
  by (simp add: handle_inbox_command_def verdict_simps split: outcome.split)

lemma handle_read_email_verdict:
  "verdict (handle_read_email_command cls collab ls s) =
   verdict (handle_read_email_command cls collab ls' s)"
  by (simp add: handle_read_email_command_def verdict_simps split: outcome.split)

lemma handle_generate_verdict:
  "verdict (handle_generate_response_command cls collab ls s) =
   verdict (handle_generate_response_command cls collab ls' s)"
  by (simp add: handle_generate_response_command_def verdict_simps split: outcome.split)

lemma handle_submit_verdict:
  "verdict (handle_submit_response_command cls collab ls s send) =
   verdict (handle_submit_response_command cls collab ls' s send)"
  by (simp add: handle_submit_response_command_def verdict_simps split: outcome.split)

lemma run_handler_verdict:
  "verdict (run_handler cls collab ls s h) = verdict (run_handler cls collab ls' s h)"
proof (cases h)
  case Login_handler
  then show ?thesis
    using handle_login_verdict [where cls = cls and collab = collab and ls = ls and ls' = ls' and s = s]
    by simp
next
  case Inbox_handler
  then show ?thesis
    using handle_inbox_verdict [where cls = cls and collab = collab and ls = ls and ls' = ls' and s = s]
    by simp
next
  case Read_email_handler
  then show ?thesis
    using handle_read_email_verdict [where cls = cls and collab = collab and ls = ls and ls' = ls' and s = s]
    by simp
next
  case Generate_response_handler
  then show ?thesis
    using handle_generate_verdict [where cls = cls and collab = collab and ls = ls and ls' = ls' and s = s]
    by simp
next
  case (Submit_response_handler send)
  then show ?thesis
    using handle_submit_verdict [where cls = cls and collab = collab and ls = ls and ls' = ls' and s = s
        and send = send]
    by simp
qed

lemma process_command_verdict:
  "verdict (process_command cls collab ls s command) =
   verdict (process_command cls collab ls' s command)"
proof (cases "classify command")
  case None
  then show ?thesis
    by (simp add: process_command_dispatch dispatch_by_rules_def verdict_def Let_def
        snd_add_event)
next
  case (Some h)
  let ?s1 = "snd (add_event cls s PROCESSING_COMMAND (Some [(''command'', PStr command)])
                   (Some (''Processing command: '' @ command)))"
  have "verdict (run_handler cls collab ls ?s1 h) = verdict (run_handler cls collab ls' ?s1 h)"
    by (rule run_handler_verdict)
  with Some show ?thesis
    by (simp add: process_command_dispatch dispatch_by_rules_def verdict_def Let_def split_def)
qed


lemma get_active_session_listeners:
  "get_active_session (ctl\<lparr>event_listeners := ls\<rparr>) = get_active_session ctl"
  by (simp add: get_active_session_def)

lemma process_registered_answer:
  "sessions ctl = sessions ctl' \<Longrightarrow>
   answer (process_registered cls collab k s command ctl) =
   answer (process_registered cls collab k s command ctl')"
  using process_command_verdict [where cls = cls and collab = collab and s = s and command = command
      and ls = "event_listeners ctl" and ls' = "event_listeners ctl'"]
  by (simp add: process_registered_def answer_def verdict_def split_def Let_def)

lemma create_session_answer:
  "answer (create_session cls sid (ctl\<lparr>event_listeners := ls\<rparr>)) =
   answer (create_session cls sid ctl)"
  by (simp add: create_session_def answer_def Let_def)

lemma end_session_answer:
  "answer (end_session cls collab sid (ctl\<lparr>event_listeners := ls\<rparr>)) =
   answer (end_session cls collab sid ctl)"
  by (simp add: end_session_def answer_def Let_def split: option.split)

lemma process_voice_command_answer:
  "answer (process_voice_command cls collab new_id command (ctl\<lparr>event_listeners := ls\<rparr>)) =
   answer (process_voice_command cls collab new_id command ctl)"
proof (cases "get_active_session ctl")
  case None
  let ?s1 = "snd (add_event cls (new_WorkflowSession cls new_id) LISTENING None
                  (Some ''Session created, listening for commands''))"
  let ?c = "\<lambda>c. fst (snd (create_session cls new_id c))"
  have s: "sessions (?c (ctl\<lparr>event_listeners := ls\<rparr>)) = sessions (?c ctl)"
    using create_session_answer [where cls = cls and sid = new_id and ctl = ctl and ls = ls] by (simp add: answer_def)
  have "answer (process_registered cls collab new_id ?s1 command (?c (ctl\<lparr>event_listeners := ls\<rparr>))) =
        answer (process_registered cls collab new_id ?s1 command (?c ctl))"
    using s by (rule process_registered_answer)
  then show ?thesis
    using None create_session_lookup [where cls = cls and sid = new_id and ctl = ctl]
      create_session_lookup [where cls = cls and sid = new_id and ctl = "ctl\<lparr>event_listeners := ls\<rparr>"]
    by (simp add: process_voice_command_def get_active_session_listeners split_def Let_def
        answer_def)
next
  case (Some p)
  obtain k s where p: "p = (k, s)" by (cases p)
  have "answer (process_registered cls collab k s command (ctl\<lparr>event_listeners := ls\<rparr>)) =
        answer (process_registered cls collab k s command ctl)"
    by (rule process_registered_answer) simp
  with Some p show ?thesis
    by (simp add: process_voice_command_def get_active_session_listeners)
qed

text \<open>
  C8. Notification calls the listeners one after the other in the order of registration,
  each exactly once for the event, whatever the listeners before it did: a fault is
  recorded and the loop goes on. Every event a command appends is delivered this way, and
  the result and the registry an operation leaves are the same as with no listener at all.
\<close>

theorem listener_faults_are_isolated:
  "notify_listeners ls event =
     concat (map (\<lambda>(i, l). Invoked i event #
                    (case run l event of
                       Returned \<Rightarrow> []
                     | Raised e \<Rightarrow> [Listener_error i (''Error in event listener: '' @ e)]))
              (enumerate 0 ls))
   \<and> event_listeners (register_event_listener callback ctl) = event_listeners ctl @ [callback]
   \<and> invocations (snd (snd (process_command cls collab ls s command))) =
       fanout ls (new_events s (fst (snd (process_command cls collab ls s command))))
   \<and> answer (process_voice_command cls collab new_id command (ctl\<lparr>event_listeners := ls\<rparr>)) =
       answer (process_voice_command cls collab new_id command (ctl\<lparr>event_listeners := []\<rparr>))
   \<and> answer (create_session cls sid (ctl\<lparr>event_listeners := ls\<rparr>)) =
       answer (create_session cls sid (ctl\<lparr>event_listeners := []\<rparr>))
   \<and> answer (end_session cls collab sid (ctl\<lparr>event_listeners := ls\<rparr>)) =
       answer (end_session cls collab sid (ctl\<lparr>event_listeners := []\<rparr>))"
  by (simp add: notify_listeners_def notify_from_enumerate [of 0] register_event_listener_def
      process_command_fanout process_voice_command_answer create_session_answer
      end_session_answer)

end
